theory Spec2Isabelle
  imports Complex_Main "HOL-Library.Sublist" "HOL-Library.Multiset"
begin

section \<open>Values shared by the modules\<close>

text \<open>
  JavaScript numbers are doubles. In the mining module, whose loops and comparator count and
  compare with them, a number is a real number of the grid of doubles and the result of an
  arithmetic operation is the exact result rounded to that grid (\<open>fl\<close> below); its
  positions \<open>{x, y, z}\<close> are triples of such numbers. The \<open>Vec3\<close> positions and distances of
  the safety and navigation modules are read as exact real numbers. A \<open>pos\<close> is a position
  whose three components are integers: a cell of the block grid.
\<close>

datatype pos = Pos (px: int) (py: int) (pz: int)

datatype vec3 = Vec3 (vx: real) (vy: real) (vz: real)

definition of_pos :: "pos \<Rightarrow> vec3" where
  "of_pos p = Vec3 (of_int (px p)) (of_int (py p)) (of_int (pz p))"

text \<open>What \<open>bot.blockAt\<close> and \<open>world.getBlock\<close> hand back: the fields the modules read.\<close>

datatype block = Block (block_name: string) (block_type: nat) (boundingBox: string)

subsection \<open>Rounding to a double\<close>

text \<open>
  Round to nearest, ties to even, with 53 bits of precision and the subnormal range below
  2 to the power -1022: \<open>ulp x\<close> is the distance between neighbouring doubles around \<open>x\<close>.
  Results of magnitude 2 to the power 1024 or more (Infinity in JavaScript) and NaN are
  outside this model.
\<close>

definition exponent :: "real \<Rightarrow> int" where
  "exponent x = max \<lfloor>log 2 \<bar>x\<bar>\<rfloor> (- 1022)"

definition ulp :: "real \<Rightarrow> real" where
  "ulp x = 2 powi (exponent x - 52)"

definition round_even :: "real \<Rightarrow> int" where
  "round_even r =
     (if r - of_int \<lfloor>r\<rfloor> < 1 / 2 then \<lfloor>r\<rfloor>
      else if r - of_int \<lfloor>r\<rfloor> > 1 / 2 then \<lfloor>r\<rfloor> + 1
      else if even \<lfloor>r\<rfloor> then \<lfloor>r\<rfloor> else \<lfloor>r\<rfloor> + 1)"

definition fl :: "real \<Rightarrow> real" where
  "fl x = (if x = 0 then 0 else of_int (round_even (x / ulp x)) * ulp x)"

text \<open>
  \<open>for (let v = lo; v <= hi; v++) body\<close> on numbers: \<open>v++\<close> is \<open>v + 1\<close> rounded, so the counter
  may stop growing and the loop never end; not returning is the value \<open>None\<close>.
\<close>

partial_function (option) count_loop ::
  "real \<Rightarrow> real \<Rightarrow> (real \<Rightarrow> 'a \<Rightarrow> 'a option) \<Rightarrow> 'a \<Rightarrow> 'a option" where
  "count_loop v hi body acc =
     (if v \<le> hi then Option.bind (body v acc) (count_loop (fl (v + 1)) hi body)
      else Some acc)"

subsection \<open>Loops over integer offsets\<close>



section \<open>Mining module (src/modules/mining.js)\<close>

subsection \<open>calculateMiningArea\<close>

definition calculateMiningArea :: "vec3 \<Rightarrow> vec3 \<Rightarrow> vec3 list option" where
  "calculateMiningArea startPos endPos =
     (let minX = min (vx startPos) (vx endPos);
          maxX = max (vx startPos) (vx endPos);
          minY = min (vy startPos) (vy endPos);
          maxY = max (vy startPos) (vy endPos);
          minZ = min (vz startPos) (vz endPos);
          maxZ = max (vz startPos) (vz endPos)
      in count_loop minX maxX (\<lambda>x.
           count_loop minY maxY (\<lambda>y.
             count_loop minZ maxZ (\<lambda>z blocks. Some (blocks @ [Vec3 x y z])))) [])"


subsection \<open>sortBlocksByDistance\<close>

text \<open>
  \<open>Array.prototype.sort(compare)\<close> is the language's built-in: a stable sort (ECMAScript
  2019), written here as the insertion sort that places an element before the first one
  it does not compare greater than.
\<close>

fun insert_sorted :: "('a \<Rightarrow> 'a \<Rightarrow> real) \<Rightarrow> 'a \<Rightarrow> 'a list \<Rightarrow> 'a list" where
  "insert_sorted compare a [] = [a]"
| "insert_sorted compare a (b # bs) =
     (if compare a b \<le> 0 then a # b # bs else b # insert_sorted compare a bs)"

fun array_sort :: "('a \<Rightarrow> 'a \<Rightarrow> real) \<Rightarrow> 'a list \<Rightarrow> 'a list" where
  "array_sort compare [] = []"
| "array_sort compare (a # as) = insert_sorted compare a (array_sort compare as)"

text \<open>
  The distance the comparator computes for one block (\<open>distA\<close>, \<open>distB\<close>): every
  subtraction, \<open>Math.pow(_, 2)\<close>, addition and \<open>Math.sqrt\<close> gives the rounded result.
\<close>

definition blockDistance :: "vec3 \<Rightarrow> vec3 \<Rightarrow> real" where
  "blockDistance botPos a =
     fl (sqrt (fl (fl (fl ((fl (vx a - vx botPos))\<^sup>2) +
                       fl ((fl (vy a - vy botPos))\<^sup>2)) +
                   fl ((fl (vz a - vz botPos))\<^sup>2))))"

definition sortBlocksByDistance :: "vec3 \<Rightarrow> vec3 list \<Rightarrow> vec3 list" where
  "sortBlocksByDistance botPos blocks =
     array_sort (\<lambda>a b.
       let distA = blockDistance botPos a;
           distB = blockDistance botPos b
       in fl (distA - distB)) blocks"

subsection \<open>The module's fields, the bot it drives and the console\<close>

text \<open>
  The lines the module writes, one constructor per message with the values the template
  interpolates. \<open>ConsoleLog\<close> is \<open>console.log\<close>, \<open>ConsoleError\<close> is \<open>console.error\<close>.
\<close>

datatype message =
    AlreadyInProgress
  | Starting vec3 vec3
  | Calculated nat
  | Found nat
  | Cancelled
  | Progress nat nat
  | Completed nat
  | OperationFailed
  | Stopped
  | Paused
  | Resumed
  | SpeedOutOfRange
  | SpeedSet real
  | Skipped string vec3
  | Mined string vec3
  | MineFailed vec3

datatype console_line = ConsoleLog message | ConsoleError message

text \<open>
  The fields the constructor sets. \<open>console\<close> is a ghost field: the lines written so far.
\<close>

record miningModule =
  isMining :: bool
  miningQueue :: "vec3 list"
  blocksPerSecond :: real
  ignoredBlocks :: "string list"
  console :: "console_line list"

definition new_MiningModule :: miningModule where
  "new_MiningModule =
     \<lparr>isMining = False, miningQueue = [], blocksPerSecond = 1,
      ignoredBlocks = [''bedrock'', ''obsidian''], console = []\<rparr>"

definition say :: "console_line \<Rightarrow> miningModule \<Rightarrow> miningModule" where
  "say line m = m\<lparr>console := console m @ [line]\<rparr>"

text \<open>
  The bot as the mining module reads it at one moment: \<open>bot.blockAt\<close>, the position of
  \<open>bot.entity\<close> (absent before the bot has spawned: reading it then throws), the names of
  \<open>bot.inventory.items()\<close>, and whether \<open>bot.dig\<close> rejects for a block.
\<close>

record bot =
  blockAt :: "vec3 \<Rightarrow> block option"
  entity_position :: "vec3 option"
  inventory_items :: "string list"
  dig_rejects :: "vec3 \<Rightarrow> bool"

text \<open>What the module asks of the bot and of the timer, in order.\<close>

datatype action = Equip string | Dig vec3 | Delay real

text \<open>\<open>String.prototype.includes\<close>: the second string occurs in the first.\<close>

fun includes_str :: "string \<Rightarrow> string \<Rightarrow> bool" where
  "includes_str [] sub = (sub = [])"
| "includes_str (c # cs) sub = (prefix sub (c # cs) \<or> includes_str cs sub)"

subsection \<open>filterMineableBlocks, getToolForBlock, equipBestTool, mineBlock\<close>

definition filterMineableBlocks :: "miningModule \<Rightarrow> bot \<Rightarrow> vec3 list \<Rightarrow> vec3 list" where
  "filterMineableBlocks m b positions =
     filter (\<lambda>p.
       case blockAt b p of
         None \<Rightarrow> False
       | Some blk \<Rightarrow>
           if block_name blk = ''air'' \<or> block_name blk \<in> set (ignoredBlocks m) then False
           else True) positions"

definition getToolForBlock :: "block \<Rightarrow> string option" where
  "getToolForBlock blk =
     (let stoneBlocks = [''stone'', ''granite'', ''diorite'', ''andesite'', ''slate''];
          ironBlocks = [''iron_ore'', ''deepslate_iron_ore'', ''gold_ore'', ''deepslate_gold_ore''];
          diamondBlocks = [''diamond_ore'', ''deepslate_diamond_ore'', ''emerald_ore''];
          woodBlocks = [''oak_wood'', ''spruce_wood'', ''birch_wood'', ''jungle_wood'']
      in if list_ex (includes_str (block_name blk)) diamondBlocks then Some ''diamond_pickaxe''
         else if list_ex (includes_str (block_name blk)) ironBlocks then Some ''iron_pickaxe''
         else if list_ex (includes_str (block_name blk)) stoneBlocks then Some ''stone_pickaxe''
         else if list_ex (includes_str (block_name blk)) woodBlocks then Some ''axe''
         else None)"

text \<open>
  \<open>equipBestTool\<close> swallows a rejected \<open>bot.equip\<close>; what is left of it is the request.
\<close>

definition equipBestTool :: "bot \<Rightarrow> block \<Rightarrow> action list" where
  "equipBestTool b blk =
     (case getToolForBlock blk of
        None \<Rightarrow> []
      | Some toolType \<Rightarrow>
          (case find (\<lambda>item. includes_str item toolType) (inventory_items b) of
             None \<Rightarrow> []
           | Some tool \<Rightarrow> [Equip tool]))"

text \<open>
  \<open>mineBlock\<close>: the requests it makes and the lines it writes. A rejected \<open>bot.dig\<close> is
  caught and reported; nothing is thrown to the caller.
\<close>

definition mineBlock :: "miningModule \<Rightarrow> bot \<Rightarrow> vec3 \<Rightarrow> action list \<times> console_line list" where
  "mineBlock m b blockPos =
     (case blockAt b blockPos of
        None \<Rightarrow> ([], [])
      | Some blk \<Rightarrow>
          if block_name blk = ''air'' then ([], [])
          else if block_name blk \<in> set (ignoredBlocks m)
            then ([], [ConsoleLog (Skipped (block_name blk) blockPos)])
          else if dig_rejects b blockPos
            then (equipBestTool b blk @ [Dig blockPos], [ConsoleError (MineFailed blockPos)])
          else (equipBestTool b blk @ [Dig blockPos],
                [ConsoleLog (Mined (block_name blk) blockPos)]))"

subsection \<open>stop, pause, resume, setMiningSpeed\<close>

definition stop :: "miningModule \<Rightarrow> miningModule" where
  "stop m =
     (if isMining m
      then say (ConsoleLog Stopped) (m\<lparr>isMining := False, miningQueue := []\<rparr>)
      else m)"

definition pause :: "miningModule \<Rightarrow> miningModule" where
  "pause m =
     (if isMining m then say (ConsoleLog Paused) (m\<lparr>isMining := False\<rparr>) else m)"

definition resume :: "miningModule \<Rightarrow> miningModule" where
  "resume m =
     (if length (miningQueue m) > 0 \<and> \<not> isMining m
      then say (ConsoleLog Resumed) (m\<lparr>isMining := True\<rparr>)
      else m)"

definition setMiningSpeed :: "real \<Rightarrow> miningModule \<Rightarrow> miningModule" where
  "setMiningSpeed speed m =
     (if speed < 0.1 \<or> speed > 10 then say (ConsoleError SpeedOutOfRange) m
      else say (ConsoleLog (SpeedSet speed)) (m\<lparr>blocksPerSecond := speed\<rparr>))"

subsection \<open>mineRectangularArea and the calls that interleave with it\<close>

text \<open>
  \<open>mineRectangularArea\<close> is an async function: it runs until it awaits, and other calls on
  the module run while it is suspended. A suspended invocation is inside its loop, with
  the loop counter \<open>i\<close>, awaiting either \<open>mineBlock\<close> or the pacing \<open>delay\<close>. The loop reads
  \<open>this.isMining\<close> and \<open>this.miningQueue\<close> afresh in every round.
  \<open>mineBlock\<close> reads the world when it is called and the module only before its first
  await, so it is run in one piece when the loop calls it.
\<close>

datatype task = AwaitMineBlock nat | AwaitDelay nat

datatype outcome = Returned | Threw | Suspended | Diverges

record controller =
  module :: miningModule
  invocations :: "task list"
  actions :: "action list"
  mineBlock_calls :: "vec3 list"

definition new_controller :: controller where
  "new_controller =
     \<lparr>module = new_MiningModule, invocations = [], actions = [], mineBlock_calls = []\<rparr>"

text \<open>
  The loop from its test \<open>i < this.miningQueue.length\<close> to the next await. It hands back
  the task to suspend as, or None once the function has run to its end (the lines after
  the loop: the completion message and \<open>this.isMining = false\<close>).
\<close>

definition loop_from :: "bot \<Rightarrow> nat \<Rightarrow> controller \<Rightarrow> task option \<times> controller" where
  "loop_from b i s =
     (let m = module s;
          finish = (\<lambda>m'. s\<lparr>module :=
                      (say (ConsoleLog (Completed (length (miningQueue m')))) m')
                        \<lparr>isMining := False\<rparr>\<rparr>)
      in if i < length (miningQueue m) then
           if \<not> isMining m then (None, finish (say (ConsoleLog Cancelled) m))
           else
             let blockPos = miningQueue m ! i;
                 (acts, lines) = mineBlock m b blockPos
             in (Some (AwaitMineBlock i),
                 s\<lparr>module := m\<lparr>console := console m @ lines\<rparr>,
                   actions := actions s @ acts,
                   mineBlock_calls := mineBlock_calls s @ [blockPos]\<rparr>)
         else (None, finish m))"

text \<open>After \<open>await this.mineBlock(blockPos)\<close>: the progress line and the pacing delay.\<close>

definition after_mineBlock :: "nat \<Rightarrow> controller \<Rightarrow> task \<times> controller" where
  "after_mineBlock i s =
     (let m = module s;
          m' = (if (i + 1) mod 10 = 0
                then say (ConsoleLog (Progress (i + 1) (length (miningQueue m)))) m
                else m)
      in (AwaitDelay i,
          s\<lparr>module := m', actions := actions s @ [Delay (1000 / blocksPerSecond m)]\<rparr>))"

text \<open>
  The call itself, up to its first await. When the loops of \<open>calculateMiningArea\<close> do not
  end, the call never returns: the module stays as the lines before left it. Reading
  \<open>this.bot.entity.position\<close> in \<open>sortBlocksByDistance\<close> throws when the bot has no entity;
  the catch block reports, resets \<open>isMining\<close> and throws again.
\<close>

definition mineRectangularArea ::
  "bot \<Rightarrow> vec3 \<Rightarrow> vec3 \<Rightarrow> controller \<Rightarrow> outcome \<times> controller" where
  "mineRectangularArea b startPos endPos s =
     (let m = module s in
      if isMining m then (Returned, s\<lparr>module := say (ConsoleLog AlreadyInProgress) m\<rparr>)
      else
        let m1 = say (ConsoleLog (Starting startPos endPos)) (m\<lparr>isMining := True\<rparr>)
        in case calculateMiningArea startPos endPos of
             None \<Rightarrow> (Diverges, s\<lparr>module := m1\<rparr>)
           | Some allBlocks \<Rightarrow>
               let m2 = say (ConsoleLog (Calculated (length allBlocks))) m1;
                   mineableBlocks = filterMineableBlocks m2 b allBlocks;
                   m3 = say (ConsoleLog (Found (length mineableBlocks))) m2
               in case entity_position b of
                    None \<Rightarrow>
                      (Threw,
                       s\<lparr>module := (say (ConsoleError OperationFailed) m3)\<lparr>isMining := False\<rparr>\<rparr>)
                  | Some botPos \<Rightarrow>
                      let m4 = m3\<lparr>miningQueue := sortBlocksByDistance botPos mineableBlocks\<rparr>
                      in case loop_from b 0 (s\<lparr>module := m4\<rparr>) of
                           (None, s') \<Rightarrow> (Returned, s')
                         | (Some t, s') \<Rightarrow>
                             (Suspended, s'\<lparr>invocations := invocations s' @ [t]\<rparr>))"

text \<open>
  What can happen to a controller: a call of one of its methods, or the promise that its
  \<open>k\<close>-th suspended invocation awaits settles (with the bot as it is then).
\<close>

datatype event =
    CallMineRectangularArea bot vec3 vec3
  | CallStop
  | CallPause
  | CallResume
  | CallSetMiningSpeed real
  | Settle nat bot

definition continue_task :: "nat \<Rightarrow> bot \<Rightarrow> controller \<Rightarrow> controller" where
  "continue_task k b s =
     (if k < length (invocations s) then
        case invocations s ! k of
          AwaitMineBlock i \<Rightarrow>
            (let (t, s') = after_mineBlock i s
             in s'\<lparr>invocations := (invocations s')[k := t]\<rparr>)
        | AwaitDelay i \<Rightarrow>
            (case loop_from b (i + 1) s of
               (Some t, s') \<Rightarrow> s'\<lparr>invocations := (invocations s')[k := t]\<rparr>
             | (None, s') \<Rightarrow>
                 s'\<lparr>invocations := take k (invocations s') @ drop (k + 1) (invocations s')\<rparr>)
      else s)"

fun step :: "controller \<Rightarrow> event \<Rightarrow> controller" where
  "step s (CallMineRectangularArea b startPos endPos) = snd (mineRectangularArea b startPos endPos s)"
| "step s CallStop = s\<lparr>module := stop (module s)\<rparr>"
| "step s CallPause = s\<lparr>module := pause (module s)\<rparr>"
| "step s CallResume = s\<lparr>module := resume (module s)\<rparr>"
| "step s (CallSetMiningSpeed speed) = s\<lparr>module := setMiningSpeed speed (module s)\<rparr>"
| "step s (Settle k b) = continue_task k b s"

definition run :: "controller \<Rightarrow> event list \<Rightarrow> controller" where
  "run s events = foldl step s events"

section \<open>Safety module (SafetyChecker)\<close>

subsection \<open>Vec3 arithmetic the modules use\<close>


definition distanceTo :: "vec3 \<Rightarrow> vec3 \<Rightarrow> real" where
  "distanceTo a b = sqrt ((vx b - vx a)\<^sup>2 + (vy b - vy a)\<^sup>2 + (vz b - vz a)\<^sup>2)"

subsection \<open>The checker's fields and the bot it reads\<close>

record safetyChecker =
  dangerousBlocks :: "string list"
  waterBlocks :: "string list"
  safeDistance :: real

definition new_SafetyChecker :: safetyChecker where
  "new_SafetyChecker =
     \<lparr>dangerousBlocks = [''lava'', ''flowing_lava''],
      waterBlocks = [''water'', ''flowing_water''],
      safeDistance = 5\<rparr>"

text \<open>An entry of \<open>bot.entities\<close>: the fields \<open>detectNearbyMobs\<close> reads.\<close>

record entity =
  entity_type :: string
  entity_name :: string
  entity_pos :: vec3

text \<open>
  The bot as the checker reads it: \<open>bot.world.getBlock\<close>, the values of \<open>bot.entities\<close>
  (an entry may be null) and \<open>bot.player.entity.position\<close>.
\<close>

record world_view =
  getBlock :: "pos \<Rightarrow> block option"
  entities :: "entity option list"
  player_position :: vec3

subsection \<open>isLavaPresent, isWaterPresent, isLiquidFree\<close>

text \<open>The position argument may be null: \<open>None\<close>.\<close>

definition isLavaPresent :: "safetyChecker \<Rightarrow> world_view \<Rightarrow> pos option \<Rightarrow> bool" where
  "isLavaPresent c w position =
     (case position of
        None \<Rightarrow> False
      | Some p \<Rightarrow>
          (case getBlock w p of
             None \<Rightarrow> False
           | Some blk \<Rightarrow> block_name blk \<in> set (dangerousBlocks c)))"

definition isWaterPresent :: "safetyChecker \<Rightarrow> world_view \<Rightarrow> pos option \<Rightarrow> bool" where
  "isWaterPresent c w position =
     (case position of
        None \<Rightarrow> False
      | Some p \<Rightarrow>
          (case getBlock w p of
             None \<Rightarrow> False
           | Some blk \<Rightarrow> block_name blk \<in> set (waterBlocks c)))"

definition isLiquidFree :: "safetyChecker \<Rightarrow> world_view \<Rightarrow> pos option \<Rightarrow> bool" where
  "isLiquidFree c w position = (\<not> isLavaPresent c w position \<and> \<not> isWaterPresent c w position)"

subsection \<open>detectNearbyMobs, hasHostileMobs\<close>

record mob =
  mob_name :: string
  mob_position :: vec3
  mob_distance :: real

record mobData =
  hostile :: "mob list"
  peaceful :: "mob list"
  threatLevel :: string

definition hostileTypes :: "string list" where
  "hostileTypes =
     [''zombie'', ''skeleton'', ''creeper'', ''spider'', ''cave_spider'', ''enderman'',
      ''witch'', ''slime'', ''magma_cube'', ''ghast'', ''blazeghast'', ''wither_skeleton'',
      ''stray'', ''husk'', ''drowned'', ''phantom'', ''pillager'', ''ravager'']"

text \<open>One round of the loop over the entities, on the pair of lists built so far.\<close>

definition classify_entity ::
  "world_view \<Rightarrow> entity option \<Rightarrow> mob list \<times> mob list \<Rightarrow> mob list \<times> mob list" where
  "classify_entity w e found =
     (case e of
        None \<Rightarrow> found
      | Some ent \<Rightarrow>
          if entity_type ent \<noteq> ''mob'' then found
          else
            let distance = distanceTo (player_position w) (entity_pos ent);
                entry = \<lparr>mob_name = entity_name ent, mob_position = entity_pos ent,
                         mob_distance = distance\<rparr>
            in if entity_name ent \<in> set hostileTypes
               then (fst found @ [entry], snd found)
               else (fst found, snd found @ [entry]))"

definition detectNearbyMobs :: "world_view \<Rightarrow> mobData" where
  "detectNearbyMobs w =
     (let (hostileMobs, peacefulMobs) = fold (classify_entity w) (entities w) ([], [])
      in \<lparr>hostile = hostileMobs, peaceful = peacefulMobs,
          threatLevel = (if length hostileMobs > 0 then ''high'' else ''low'')\<rparr>)"

definition hasHostileMobs :: "world_view \<Rightarrow> real \<Rightarrow> bool" where
  "hasHostileMobs w maxDistance =
     list_ex (\<lambda>m. mob_distance m \<le> maxDistance) (hostile (detectNearbyMobs w))"

subsection \<open>scanAreaForHazards\<close>




section \<open>Navigation module (Navigation)\<close>

subsection \<open>Vec3 on continuous positions\<close>

definition offset_v :: "vec3 \<Rightarrow> real \<Rightarrow> real \<Rightarrow> real \<Rightarrow> vec3" where
  "offset_v v dx dy dz = Vec3 (vx v + dx) (vy v + dy) (vz v + dz)"

definition minus_v :: "vec3 \<Rightarrow> vec3 \<Rightarrow> vec3" where
  "minus_v a b = Vec3 (vx a - vx b) (vy a - vy b) (vz a - vz b)"

definition norm_v :: "vec3 \<Rightarrow> real" where
  "norm_v v = sqrt ((vx v)\<^sup>2 + (vy v)\<^sup>2 + (vz v)\<^sup>2)"

definition normalize :: "vec3 \<Rightarrow> vec3" where
  "normalize v =
     (let n = norm_v v
      in if n \<noteq> 0 then Vec3 (vx v / n) (vy v / n) (vz v / n) else v)"

definition floored :: "vec3 \<Rightarrow> pos" where
  "floored v = Pos \<lfloor>vx v\<rfloor> \<lfloor>vy v\<rfloor> \<lfloor>vz v\<rfloor>"

text \<open>\<open>Math.atan2(y, x)\<close> on real numbers.\<close>

definition atan2 :: "real \<Rightarrow> real \<Rightarrow> real" where
  "atan2 y x =
     (if x > 0 then arctan (y / x)
      else if x < 0 then (if y \<ge> 0 then arctan (y / x) + pi else arctan (y / x) - pi)
      else if y > 0 then pi / 2
      else if y < 0 then - pi / 2
      else 0)"

subsection \<open>The navigator's state, the bot's controls and the world around it\<close>

text \<open>
  The world is not the navigator's: where the bot is, how it moves and which blocks
  surround it are given for every instant of the clock (milliseconds, \<open>Date.now()\<close>).
  A timer set for \<open>ms\<close> milliseconds fires after \<open>ms\<close> plus a lag that is never negative.
  \<open>bot.blockAt\<close> reads the block of the cell a point lies in.
\<close>

record surroundings =
  position_at :: "int \<Rightarrow> vec3"
  velocity_at :: "int \<Rightarrow> vec3"
  world_at :: "int \<Rightarrow> pos \<Rightarrow> block option"
  timer_lag :: "int \<Rightarrow> nat"

datatype control = Forward | Back | Left | Right | Jump

record goal =
  goal_position :: vec3
  goal_tolerance :: real
  goal_timestamp :: int

text \<open>
  The fields of the navigator that the code reads or writes, the bot's control states
  (\<open>bot.setControlState\<close>), the \<open>bot.look\<close> calls made so far and the clock.
\<close>

record navigation =
  goals :: "goal list"
  pathfindingActive :: bool
  controlState :: "control \<Rightarrow> bool"
  looks :: "(real \<times> real) list"
  clock :: int


record nav_options =
  timeout :: int
  checkObstacles :: bool
  avoidLava :: bool
  avoidWater :: bool
  tolerance :: real

definition bot_blockAt :: "surroundings \<Rightarrow> navigation \<Rightarrow> vec3 \<Rightarrow> block option" where
  "bot_blockAt e s v = world_at e (clock s) (floored v)"

definition bot_position :: "surroundings \<Rightarrow> navigation \<Rightarrow> vec3" where
  "bot_position e s = position_at e (clock s)"

definition setControlState :: "control \<Rightarrow> bool \<Rightarrow> navigation \<Rightarrow> navigation" where
  "setControlState c v s = s\<lparr>controlState := (controlState s)(c := v)\<rparr>"

definition sleep :: "surroundings \<Rightarrow> int \<Rightarrow> navigation \<Rightarrow> navigation" where
  "sleep e ms s = s\<lparr>clock := clock s + ms + int (timer_lag e (clock s))\<rparr>"

subsection \<open>Block tests\<close>

definition isSolidBlock :: "block option \<Rightarrow> bool" where
  "isSolidBlock b =
     (case b of
        None \<Rightarrow> False
      | Some blk \<Rightarrow>
          \<not> list_ex (\<lambda>liquid. includes_str (block_name blk) liquid) [''water'', ''lava'', ''air'']
          \<and> boundingBox blk = ''block'')"

definition canStand :: "surroundings \<Rightarrow> navigation \<Rightarrow> vec3 \<Rightarrow> bool" where
  "canStand e s p =
     (case (bot_blockAt e s p, bot_blockAt e s (offset_v p 0 (- 1) 0)) of
        (Some blk, Some belowBlock) \<Rightarrow>
          list_ex (\<lambda>b. includes_str (block_name blk) b) [''air'', ''water'', ''lava'']
          \<and> isSolidBlock (Some belowBlock)
      | _ \<Rightarrow> False)"

definition canMove :: "surroundings \<Rightarrow> navigation \<Rightarrow> vec3 \<Rightarrow> bool" where
  "canMove e s p =
     (if list_ex (\<lambda>y. case bot_blockAt e s (offset_v p 0 (real_of_int y) 0) of
                        None \<Rightarrow> False
                      | Some blk \<Rightarrow> isSolidBlock (Some blk)) [0, 1]
      then False
      else canStand e s p)"

definition isObstacleAhead :: "surroundings \<Rightarrow> navigation \<Rightarrow> bool" where
  "isObstacleAhead e s =
     (let p = bot_position e s;
          lookDir = normalize (velocity_at e (clock s))
      in list_ex (\<lambda>i. case bot_blockAt e s
                             (offset_v p (vx lookDir * real_of_int i) 0 (vz lookDir * real_of_int i)) of
                        None \<Rightarrow> False
                      | Some blk \<Rightarrow> isSolidBlock (Some blk)) [1, 2, 3])"

definition isDangerousBlock :: "surroundings \<Rightarrow> navigation \<Rightarrow> string \<Rightarrow> bool" where
  "isDangerousBlock e s blockType =
     (let p = bot_position e s
      in list_ex (\<lambda>x. list_ex (\<lambda>y. list_ex (\<lambda>z.
           case bot_blockAt e s (offset_v p (real_of_int x) (real_of_int y) (real_of_int z)) of
             None \<Rightarrow> False
           | Some blk \<Rightarrow> block_type blk \<noteq> 0 \<and> includes_str (block_name blk) blockType)
           [- 1, 0, 1]) [- 1, 0, 1, 2]) [- 1, 0, 1])"

subsection \<open>Movement\<close>

text \<open>A direction \<open>{dx, dz}\<close>; its \<open>name\<close> is never read.\<close>

datatype direction = Direction (dx: int) (dz: int)

definition calculateAvoidance :: "surroundings \<Rightarrow> navigation \<Rightarrow> direction option" where
  "calculateAvoidance e s =
     (let p = bot_position e s;
          directions = [Direction 1 0, Direction (- 1) 0, Direction 0 1, Direction 0 (- 1)]
      in find (\<lambda>dir. canMove e s (offset_v p (real_of_int (dx dir)) 0 (real_of_int (dz dir))))
           directions)"

definition moveInDirection :: "surroundings \<Rightarrow> direction \<Rightarrow> navigation \<Rightarrow> navigation" where
  "moveInDirection e dir s =
     (let s1 = (if dx dir > 0 then setControlState Right True s else s);
          s2 = (if dx dir < 0 then setControlState Left True s1 else s1);
          s3 = (if dz dir > 0 then setControlState Forward True s2 else s2);
          s4 = (if dz dir < 0 then setControlState Back True s3 else s3);
          s5 = sleep e 100 s4
      in setControlState Back False
           (setControlState Forward False
             (setControlState Left False
               (setControlState Right False s5))))"

definition avoidDanger :: "surroundings \<Rightarrow> string \<Rightarrow> navigation \<Rightarrow> navigation" where
  "avoidDanger e dangerType s =
     (let p = bot_position e s;
          directions = [Direction 1 0, Direction (- 1) 0, Direction 0 1, Direction 0 (- 1)]
      in case find (\<lambda>dir.
                case bot_blockAt e s (offset_v p (real_of_int (dx dir)) 0 (real_of_int (dz dir))) of
                  None \<Rightarrow> True
                | Some blk \<Rightarrow> \<not> includes_str (block_name blk) dangerType) directions of
           None \<Rightarrow> s
         | Some dir \<Rightarrow> moveInDirection e dir s)"

text \<open>
  \<open>_moveTowards\<close>: the branch for a target below tests \<open>_canStand\<close> and does nothing with
  the answer, so it leaves no trace here.
\<close>

definition moveTowards :: "surroundings \<Rightarrow> vec3 \<Rightarrow> navigation \<Rightarrow> navigation" where
  "moveTowards e target s =
     (let p = bot_position e s;
          direction = normalize (minus_v target p);
          s1 = setControlState Forward True s;
          s2 = (if vy target > vy p + 0.5
                then setControlState Jump False (sleep e 50 (setControlState Jump True s1))
                else s1);
          yaw = atan2 (- vx direction) (- vz direction)
      in s2\<lparr>looks := looks s2 @ [(yaw, 0)]\<rparr>)"

subsection \<open>The navigation loop, goTo and stop\<close>

text \<open>One round of the loop of \<open>_navigatePath\<close>, after the target was found out of reach.\<close>

definition navigate_round ::
  "surroundings \<Rightarrow> vec3 \<Rightarrow> nav_options \<Rightarrow> navigation \<Rightarrow> navigation" where
  "navigate_round e target opts s =
     (let s1 = (if checkObstacles opts \<and> isObstacleAhead e s
                then (case calculateAvoidance e s of
                        None \<Rightarrow> s
                      | Some avoidanceDir \<Rightarrow> moveInDirection e avoidanceDir s)
                else s);
          s2 = (if avoidLava opts \<and> isDangerousBlock e s1 ''lava''
                then avoidDanger e ''lava'' s1 else s1);
          s3 = (if avoidWater opts \<and> isDangerousBlock e s2 ''water''
                then avoidDanger e ''water'' s2 else s2);
          s4 = moveTowards e target s3
      in sleep e 50 s4)"

lemma clock_setControlState [simp]: "clock (setControlState c v s) = clock s"
  by (simp add: setControlState_def)












text \<open>\<open>Navigation.stop\<close>.\<close>

definition stop_navigation :: "navigation \<Rightarrow> navigation" where
  "stop_navigation s =
     setControlState Jump False
       (setControlState Right False
         (setControlState Left False
           (setControlState Back False
             (setControlState Forward False (s\<lparr>pathfindingActive := False, goals := []\<rparr>)))))"

section \<open>Inputs and auxiliary definitions for the proofs\<close>

text \<open>The smallest positive double.\<close>

definition denorm_min :: real where
  "denorm_min = 2 powi (- 1074)"


text \<open>
  Integer coordinates small enough for the squares of their differences, and the sums of
  three such squares, to be doubles: magnitude at most 2 to the power 24.
\<close>

definition small_coordinates :: "pos \<Rightarrow> bool" where
  "small_coordinates p = (\<bar>px p\<bar> \<le> 2 ^ 24 \<and> \<bar>py p\<bar> \<le> 2 ^ 24 \<and> \<bar>pz p\<bar> \<le> 2 ^ 24)"

text \<open>Coordinates no larger in magnitude than a bound.\<close>

definition magnitude_at_most :: "real \<Rightarrow> vec3 \<Rightarrow> bool" where
  "magnitude_at_most m v = (\<bar>vx v\<bar> \<le> m \<and> \<bar>vy v\<bar> \<le> m \<and> \<bar>vz v\<bar> \<le> m)"




text \<open>A world of stone, the bot at the origin with an empty inventory.\<close>

definition stone_bot :: bot where
  "stone_bot =
     \<lparr>blockAt = (\<lambda>p. Some (Block ''stone'' 1 ''block'')),
      entity_position = Some (Vec3 0 0 0), inventory_items = [],
      dig_rejects = (\<lambda>p. False)\<rparr>"

text \<open>An excavation of two cells has started and awaits its first \<open>mineBlock\<close>.\<close>

definition two_cells_events :: "event list" where
  "two_cells_events = [CallMineRectangularArea stone_bot (Vec3 0 0 0) (Vec3 0 0 1)]"

text \<open>The same excavation, paused while the first cell is being mined.\<close>

definition paused_events :: "event list" where
  "paused_events = [CallMineRectangularArea stone_bot (Vec3 0 0 0) (Vec3 0 0 1), CallPause]"

text \<open>
  The excavation is paused during the first cell; the loop finishes that cell, waits its
  delay and tests \<open>isMining\<close>; then \<open>resume\<close> is called and whatever is still pending is
  let run.
\<close>

definition pause_resume_events :: "event list" where
  "pause_resume_events =
     [CallMineRectangularArea stone_bot (Vec3 0 0 0) (Vec3 0 0 1), CallPause,
      Settle 0 stone_bot, Settle 0 stone_bot, CallResume, Settle 0 stone_bot]"

text \<open>The same excavation with no call in between.\<close>

definition uninterrupted_events :: "event list" where
  "uninterrupted_events =
     [CallMineRectangularArea stone_bot (Vec3 0 0 0) (Vec3 0 0 1),
      Settle 0 stone_bot, Settle 0 stone_bot, Settle 0 stone_bot, Settle 0 stone_bot]"

text \<open>The events that call \<open>mineRectangularArea\<close>.\<close>

fun starts_excavation :: "event \<Rightarrow> bool" where
  "starts_excavation (CallMineRectangularArea b startPos endPos) = True"
| "starts_excavation ev = False"

text \<open>
  A second excavation is requested after the first was paused, while the loop of the first
  is still suspended.
\<close>

definition restart_events :: "event list" where
  "restart_events =
     [CallMineRectangularArea stone_bot (Vec3 0 0 0) (Vec3 0 0 1), CallPause,
      CallMineRectangularArea stone_bot (Vec3 0 0 0) (Vec3 0 0 1)]"

text \<open>An excavation of a box of air: nothing to mine, the call runs to its end.\<close>

definition air_bot :: bot where
  "air_bot =
     \<lparr>blockAt = (\<lambda>p. Some (Block ''air'' 0 ''empty'')),
      entity_position = Some (Vec3 0 0 0), inventory_items = [],
      dig_rejects = (\<lambda>p. False)\<rparr>"


text \<open>A world no block of which is loaded.\<close>

definition unloaded_world :: world_view where
  "unloaded_world = \<lparr>getBlock = (\<lambda>q. None), entities = [], player_position = Vec3 0 0 0\<rparr>"





section \<open>Properties of rounding\<close>

lemma ulp_pos: "0 < ulp x"
  by (simp add: ulp_def)

lemma round_even_of_int: "round_even (of_int k) = k"
  by (simp add: round_even_def)

lemma fl_exact:
  assumes "x / ulp x = of_int k"
  shows "fl x = x"
proof -
  have "of_int (round_even (x / ulp x)) * ulp x = (x / ulp x) * ulp x"
    by (simp add: assms round_even_of_int)
  also have "\<dots> = x" using ulp_pos [of x] by simp
  finally show ?thesis by (simp add: fl_def)
qed

lemma two_powr_int: "(2::real) powr real_of_int j = 2 powi j"
  by (simp add: powr_real_of_int')

lemma floor_log2_iff:
  assumes "0 < \<bar>x\<bar>"
  shows "\<lfloor>log 2 \<bar>x\<bar>\<rfloor> = k \<longleftrightarrow> 2 powi k \<le> \<bar>x\<bar> \<and> \<bar>x\<bar> < 2 powi (k + 1)"
  using floor_log_eq_powr_iff [OF assms, of 2 k] unfolding two_powr_int by simp

lemma floor_log2:
  assumes "2 powi k \<le> \<bar>x\<bar>" "\<bar>x\<bar> < 2 powi (k + 1)"
  shows "\<lfloor>log 2 \<bar>x\<bar>\<rfloor> = k"
proof -
  have "0 < (2::real) powi k" by simp
  then have pos: "0 < \<bar>x\<bar>" using assms(1) by linarith
  show ?thesis using assms floor_log2_iff [OF pos] by simp
qed

lemma powi_le_log:
  assumes "x \<noteq> 0"
  shows "2 powi \<lfloor>log 2 \<bar>x\<bar>\<rfloor> \<le> \<bar>x\<bar>" "\<bar>x\<bar> < 2 powi (\<lfloor>log 2 \<bar>x\<bar>\<rfloor> + 1)"
proof -
  have pos: "0 < \<bar>x\<bar>" using assms by simp
  show "2 powi \<lfloor>log 2 \<bar>x\<bar>\<rfloor> \<le> \<bar>x\<bar>" "\<bar>x\<bar> < 2 powi (\<lfloor>log 2 \<bar>x\<bar>\<rfloor> + 1)"
    using floor_log2_iff [OF pos, of "\<lfloor>log 2 \<bar>x\<bar>\<rfloor>"] by simp_all
qed

lemma fl_of_int:
  assumes "\<bar>n\<bar> \<le> 2 ^ 53"
  shows "fl (of_int n) = of_int n"
proof (cases "n = 0")
  case True
  then show ?thesis by (simp add: fl_def)
next
  case False
  define e where "e = \<lfloor>log 2 \<bar>real_of_int n\<bar>\<rfloor>"
  have nz: "real_of_int n \<noteq> 0" using False by simp
  have lo: "2 powi e \<le> \<bar>real_of_int n\<bar>" and hi: "\<bar>real_of_int n\<bar> < 2 powi (e + 1)"
    using powi_le_log [OF nz] by (simp_all add: e_def)
  have one: "1 \<le> \<bar>real_of_int n\<bar>" using False by (simp flip: of_int_abs)
  have e0: "0 \<le> e"
  proof (rule ccontr)
    assume "\<not> 0 \<le> e"
    then have "e + 1 \<le> 0" by simp
    then have "(2::real) powi (e + 1) \<le> 2 powi 0"
      by (intro power_int_increasing) simp_all
    then show False using hi one by simp
  qed
  have top: "\<bar>real_of_int n\<bar> \<le> 2 ^ 53"
    using assms by (metis of_int_abs of_int_le_iff of_int_numeral of_int_power)
  have e53: "e \<le> 53"
  proof (rule ccontr)
    assume "\<not> e \<le> 53"
    then have "54 \<le> e" by simp
    then have "(2::real) powi 54 \<le> 2 powi e"
      by (intro power_int_increasing) simp_all
    then show False using lo top by simp
  qed
  have ex: "exponent (of_int n) = e"
    using e0 by (simp add: exponent_def e_def)
  show ?thesis
  proof (cases "e = 53")
    case True
    then have "2 ^ 53 \<le> \<bar>real_of_int n\<bar>" using lo by simp
    then have "\<bar>real_of_int n\<bar> = 2 ^ 53" using top by simp
    then have "\<bar>n\<bar> = 2 ^ 53"
      by (metis of_int_abs of_int_eq_iff of_int_numeral of_int_power)
    then have "n = 2 ^ 53 \<or> n = - (2 ^ 53)" by linarith
    then have "real_of_int n / ulp (of_int n) = of_int (n div 2)"
      using True by (auto simp: ulp_def ex)
    then show ?thesis by (rule fl_exact)
  next
    case False
    then have le: "e \<le> 52" using e53 by simp
    have "ulp (of_int n) = 2 powi (e - 52)" by (simp add: ulp_def ex)
    also have "\<dots> = 1 / 2 ^ nat (52 - e)"
      using le by (simp add: power_int_def power_one_over)
    finally have "real_of_int n / ulp (of_int n) = of_int (n * 2 ^ nat (52 - e))"
      by simp
    then show ?thesis by (rule fl_exact)
  qed
qed


lemma exponent_ge: "- 1022 \<le> exponent x"
  by (simp add: exponent_def)

lemma denorm_min_pos: "0 < denorm_min"
  unfolding denorm_min_def by (rule zero_less_power_int) simp

lemma ulp_grid: "\<exists>m. ulp x = 2 ^ m * denorm_min"
proof -
  define m where "m = nat (exponent x + 1022)"
  have "exponent x - 52 = int m + (- 1074)"
    using exponent_ge [of x] by (simp add: m_def)
  then have "ulp x = 2 powi (int m + (- 1074))"
    by (simp only: ulp_def)
  also have "\<dots> = 2 powi (int m) * 2 powi (- 1074)"
    by (rule power_int_add) simp
  also have "(2::real) powi (int m) = 2 ^ m"
    by (rule power_int_of_nat)
  finally have "ulp x = 2 ^ m * denorm_min"
    by (simp only: denorm_min_def)
  then show ?thesis by blast
qed

lemma fl_grid: "\<exists>k. fl x = of_int k * denorm_min"
proof (cases "x = 0")
  case True
  then have "fl x = of_int 0 * denorm_min" by (simp add: fl_def)
  then show ?thesis by blast
next
  case False
  obtain m where "ulp x = 2 ^ m * denorm_min" using ulp_grid by blast
  then have "fl x = of_int (round_even (x / ulp x) * 2 ^ m) * denorm_min"
    using False by (simp add: fl_def)
  then show ?thesis by blast
qed

lemma ulp_le:
  assumes "denorm_min \<le> \<bar>x\<bar>"
  shows "ulp x \<le> \<bar>x\<bar>"
proof (cases "- 1022 \<le> \<lfloor>log 2 \<bar>x\<bar>\<rfloor>")
  case True
  have nz: "x \<noteq> 0" using assms denorm_min_pos by auto
  have "ulp x = 2 powi (\<lfloor>log 2 \<bar>x\<bar>\<rfloor> - 52)"
    using True by (simp add: ulp_def exponent_def)
  also have "\<dots> \<le> 2 powi \<lfloor>log 2 \<bar>x\<bar>\<rfloor>"
    by (intro power_int_increasing) simp_all
  also have "\<dots> \<le> \<bar>x\<bar>" using powi_le_log(1) [OF nz] .
  finally show ?thesis .
next
  case False
  then have "exponent x = - 1022" by (simp add: exponent_def)
  then have "exponent x - 52 = - 1074" by simp
  then have "ulp x = denorm_min"
    by (simp only: ulp_def denorm_min_def)
  then show ?thesis using assms by simp
qed

lemma round_even_ge: "1 \<le> r \<Longrightarrow> 1 \<le> round_even r"
proof -
  assume "1 \<le> r"
  then have "1 \<le> \<lfloor>r\<rfloor>" by linarith
  then show ?thesis by (simp add: round_even_def)
qed

lemma round_even_le: "r \<le> - 1 \<Longrightarrow> round_even r \<le> - 1"
proof -
  assume a: "r \<le> - 1"
  then have f: "\<lfloor>r\<rfloor> \<le> - 1" by linarith
  have "\<lfloor>r\<rfloor> \<le> - 2" if "1 / 2 \<le> r - of_int \<lfloor>r\<rfloor>"
  proof -
    have "of_int \<lfloor>r\<rfloor> \<le> r - 1 / 2" using that by simp
    then have "real_of_int \<lfloor>r\<rfloor> < - 1" using a by linarith
    then show ?thesis by linarith
  qed
  then show ?thesis using f by (auto simp: round_even_def not_less)
qed

lemma fl_sign:
  assumes "denorm_min \<le> \<bar>x\<bar>"
  shows "fl x \<le> 0 \<longleftrightarrow> x \<le> 0"
proof -
  have nz: "x \<noteq> 0" using assms denorm_min_pos by auto
  have u: "0 < ulp x" "ulp x \<le> \<bar>x\<bar>" using ulp_pos ulp_le [OF assms] by simp_all
  show ?thesis
  proof (cases "0 < x")
    case True
    then have "1 \<le> x / ulp x" using u by (simp add: le_divide_eq)
    then have "1 \<le> round_even (x / ulp x)" by (rule round_even_ge)
    then have "0 < real_of_int (round_even (x / ulp x)) * ulp x"
      using u(1) by simp
    then show ?thesis using True nz by (simp add: fl_def)
  next
    case False
    then have neg: "x < 0" using nz by simp
    then have "x / ulp x \<le> - 1" using u by (simp add: divide_le_eq)
    then have "round_even (x / ulp x) \<le> - 1" by (rule round_even_le)
    then have "real_of_int (round_even (x / ulp x)) * ulp x < 0"
      using u(1) by (simp add: mult_less_0_iff)
    then show ?thesis using neg nz by (simp add: fl_def)
  qed
qed

lemma fl_difference_sign: "fl (fl a - fl b) \<le> 0 \<longleftrightarrow> fl a \<le> fl b"
proof -
  obtain j k where j: "fl a = of_int j * denorm_min" and k: "fl b = of_int k * denorm_min"
    using fl_grid by blast
  have d: "fl a - fl b = of_int (j - k) * denorm_min"
    by (simp add: j k algebra_simps)
  show ?thesis
  proof (cases "j = k")
    case True
    then have "fl a = fl b" by (simp add: j k)
    then show ?thesis by (simp add: fl_def)
  next
    case False
    then have "1 \<le> \<bar>j - k\<bar>" by simp
    then have "1 \<le> \<bar>real_of_int (j - k)\<bar>"
      by (metis of_int_abs of_int_1_le_iff)
    then have "1 * denorm_min \<le> \<bar>real_of_int (j - k)\<bar> * denorm_min"
      using denorm_min_pos by (intro mult_right_mono) simp_all
    then have "denorm_min \<le> \<bar>fl a - fl b\<bar>"
      using denorm_min_pos by (simp add: d abs_mult)
    then have "fl (fl a - fl b) \<le> 0 \<longleftrightarrow> fl a - fl b \<le> 0" by (rule fl_sign)
    then show ?thesis by simp
  qed
qed

lemma fl_eval:
  assumes "2 powi k \<le> \<bar>x\<bar>" "\<bar>x\<bar> < 2 powi (k + 1)" "- 1022 \<le> k"
  shows "fl x = of_int (round_even (x / 2 powi (k - 52))) * 2 powi (k - 52)"
proof -
  have "0 < (2::real) powi k" by simp
  then have "0 < \<bar>x\<bar>" using assms(1) by linarith
  then have nz: "x \<noteq> 0" by simp
  have "exponent x = k"
    using floor_log2 [OF assms(1,2)] assms(3) by (simp add: exponent_def)
  then show ?thesis using nz by (simp add: fl_def ulp_def)
qed

lemma fl_0 [simp]: "fl 0 = 0"
  by (simp add: fl_def)

lemma fl_1 [simp]: "fl 1 = 1"
  using fl_of_int [of 1] by simp

lemma fl_minus_1 [simp]: "fl (- 1) = - 1"
  using fl_of_int [of "- 1"] by simp

lemma fl_2 [simp]: "fl 2 = 2"
  using fl_of_int [of 2] by simp





lemma fl_2_27: "fl 134217728 = 134217728"
  using fl_of_int [of 134217728] by simp

lemma fl_2_54: "fl 18014398509481984 = 18014398509481984"
  using fl_eval [of 54 18014398509481984] by (simp add: round_even_def)

lemma fl_2_54_plus_1: "fl 18014398509481985 = 18014398509481984"
  using fl_eval [of 54 18014398509481985] by (simp add: round_even_def)

lemma sqrt_2_54: "sqrt 18014398509481984 = 134217728"
  by (rule real_sqrt_unique) simp_all

section \<open>Properties of the decomposition\<close>
















section \<open>Properties of the distance ordering\<close>

lemma insert_sorted_insort:
  assumes "\<And>a b. compare a b \<le> 0 \<longleftrightarrow> key a \<le> key b"
  shows "insert_sorted compare a bs = insort_key key a bs"
  by (induction bs) (simp_all add: assms)

lemma array_sort_sort_key:
  assumes "\<And>a b. compare a b \<le> 0 \<longleftrightarrow> key a \<le> key b"
  shows "array_sort compare as = sort_key key as"
  by (induction as) (simp_all add: insert_sorted_insort [OF assms])

lemma compare_blockDistance:
  "fl (blockDistance botPos a - blockDistance botPos b) \<le> 0 \<longleftrightarrow>
     blockDistance botPos a \<le> blockDistance botPos b"
  unfolding blockDistance_def by (rule fl_difference_sign)

lemma sortBlocksByDistance_sort_key:
  "sortBlocksByDistance botPos blocks = sort_key (blockDistance botPos) blocks"
  unfolding sortBlocksByDistance_def Let_def
  by (rule array_sort_sort_key) (rule compare_blockDistance)

lemma square_bound:
  assumes "\<bar>d\<bar> \<le> (2 ^ 25 :: int)"
  shows "0 \<le> d\<^sup>2" "d\<^sup>2 \<le> 2 ^ 50"
proof -
  show "0 \<le> d\<^sup>2" by simp
  have "\<bar>d\<bar>\<^sup>2 \<le> (2 ^ 25)\<^sup>2" using assms by (intro power_mono) simp_all
  then show "d\<^sup>2 \<le> 2 ^ 50" by simp
qed

lemma blockDistance_exact:
  assumes "small_coordinates b" "small_coordinates c"
  shows "blockDistance (of_pos b) (of_pos c) = fl (distanceTo (of_pos b) (of_pos c))"
proof -
  define dx dy dz where "dx = px c - px b" and "dy = py c - py b" and "dz = pz c - pz b"
  have d: "\<bar>dx\<bar> \<le> 2 ^ 25" "\<bar>dy\<bar> \<le> 2 ^ 25" "\<bar>dz\<bar> \<le> 2 ^ 25"
    using assms by (auto simp: small_coordinates_def dx_def dy_def dz_def)
  have s: "0 \<le> dx\<^sup>2" "dx\<^sup>2 \<le> 2 ^ 50" "0 \<le> dy\<^sup>2" "dy\<^sup>2 \<le> 2 ^ 50" "0 \<le> dz\<^sup>2" "dz\<^sup>2 \<le> 2 ^ 50"
    using d square_bound by simp_all
  have f1: "fl (real_of_int dx) = of_int dx" "fl (real_of_int dy) = of_int dy"
    "fl (real_of_int dz) = of_int dz"
    using d by (simp_all add: fl_of_int)
  have f2: "fl ((real_of_int dx)\<^sup>2) = (real_of_int dx)\<^sup>2"
    "fl ((real_of_int dy)\<^sup>2) = (real_of_int dy)\<^sup>2"
    "fl ((real_of_int dz)\<^sup>2) = (real_of_int dz)\<^sup>2"
    using fl_of_int [of "dx\<^sup>2"] fl_of_int [of "dy\<^sup>2"] fl_of_int [of "dz\<^sup>2"] s by simp_all
  have f3: "fl ((real_of_int dx)\<^sup>2 + (real_of_int dy)\<^sup>2) =
              (real_of_int dx)\<^sup>2 + (real_of_int dy)\<^sup>2"
    using fl_of_int [of "dx\<^sup>2 + dy\<^sup>2"] s by simp
  have f4: "fl ((real_of_int dx)\<^sup>2 + (real_of_int dy)\<^sup>2 + (real_of_int dz)\<^sup>2) =
              (real_of_int dx)\<^sup>2 + (real_of_int dy)\<^sup>2 + (real_of_int dz)\<^sup>2"
    using fl_of_int [of "dx\<^sup>2 + dy\<^sup>2 + dz\<^sup>2"] s by simp
  have "blockDistance (of_pos b) (of_pos c) =
          fl (sqrt (fl (fl (fl ((fl (real_of_int dx))\<^sup>2) + fl ((fl (real_of_int dy))\<^sup>2)) +
                        fl ((fl (real_of_int dz))\<^sup>2))))"
    by (simp add: blockDistance_def of_pos_def dx_def dy_def dz_def)
  also have "\<dots> = fl (sqrt ((real_of_int dx)\<^sup>2 + (real_of_int dy)\<^sup>2 + (real_of_int dz)\<^sup>2))"
    by (simp only: f1 f2 f3 f4)
  also have "\<dots> = fl (distanceTo (of_pos b) (of_pos c))"
    by (simp add: distanceTo_def of_pos_def dx_def dy_def dz_def)
  finally show ?thesis .
qed

lemma blockDistance_far_cells:
  "blockDistance (Vec3 0 0 0) (Vec3 134217728 1 0) = 134217728"
  "blockDistance (Vec3 0 0 0) (Vec3 134217728 0 0) = 134217728"
  by (simp_all add: blockDistance_def fl_2_27 fl_2_54 fl_2_54_plus_1 sqrt_2_54)

text \<open>
  C4, as stated, fails: the comparator orders by the distance as it computes it in double
  arithmetic, not by the Euclidean distance. With the bot at the origin, the cell
  (134217728, 1, 0) is farther away than the cell (134217728, 0, 0), but the sum of the
  squares rounds to the same double for both, the comparator returns 0 and the farther
  cell stays first.
\<close>

theorem sortBlocksByDistance_keeps_farther_first:
  "sortBlocksByDistance (Vec3 0 0 0) [Vec3 134217728 1 0, Vec3 134217728 0 0] =
     [Vec3 134217728 1 0, Vec3 134217728 0 0] \<and>
   distanceTo (Vec3 0 0 0) (Vec3 134217728 0 0) < distanceTo (Vec3 0 0 0) (Vec3 134217728 1 0)"
proof -
  have "(134217728::real) < sqrt 18014398509481985"
    by (rule real_less_rsqrt) simp
  then show ?thesis
    by (simp add: sortBlocksByDistance_def blockDistance_far_cells distanceTo_def)
qed

text \<open>
  C4, amended. For every list of cells and every position of the bot, with coordinates of
  magnitude at most 2 to the power 500 (so that no square overflows), the list that
  \<open>sortBlocksByDistance\<close> returns holds the same cells, is in non-decreasing order of the
  distance as the comparator computes it, and keeps the cells of any one computed distance
  in the order they came in. The computed distance is the square root of the sum of the
  squared coordinate differences, each operation rounded to a double; for integer
  coordinates of magnitude at most 2 to the power 24 it is the Euclidean distance rounded
  to a double.
\<close>

theorem sortBlocksByDistance_stable_ascending:
  "(magnitude_at_most (2 ^ 500) botPos \<and> (\<forall>c\<in>set blocks. magnitude_at_most (2 ^ 500) c) \<longrightarrow>
      sorted (map (blockDistance botPos) (sortBlocksByDistance botPos blocks)) \<and>
      (\<forall>d. filter (\<lambda>c. blockDistance botPos c = d) (sortBlocksByDistance botPos blocks) =
           filter (\<lambda>c. blockDistance botPos c = d) blocks) \<and>
      mset (sortBlocksByDistance botPos blocks) = mset blocks) \<and>
   (\<forall>c. blockDistance botPos c =
        fl (sqrt (fl (fl (fl ((fl (vx c - vx botPos))\<^sup>2) + fl ((fl (vy c - vy botPos))\<^sup>2)) +
                      fl ((fl (vz c - vz botPos))\<^sup>2))))) \<and>
   (small_coordinates b \<and> small_coordinates p \<longrightarrow>
      blockDistance (of_pos b) (of_pos p) = fl (distanceTo (of_pos b) (of_pos p)))"
  by (simp add: sortBlocksByDistance_sort_key sort_key_stable blockDistance_exact)
    (simp add: blockDistance_def)

theorem sortBlocksByDistance_stable_ascending_witness:
  "magnitude_at_most (2 ^ 500) (Vec3 0 0 0) \<and>
   list_all (magnitude_at_most (2 ^ 500)) [Vec3 0 0 1, Vec3 0 0 0] \<and>
   sorted (map (blockDistance (Vec3 0 0 0))
     (sortBlocksByDistance (Vec3 0 0 0) [Vec3 0 0 1, Vec3 0 0 0])) \<and>
   mset (sortBlocksByDistance (Vec3 0 0 0) [Vec3 0 0 1, Vec3 0 0 0]) =
     mset [Vec3 0 0 1, Vec3 0 0 0] \<and>
   small_coordinates (Pos 0 0 0) \<and> small_coordinates (Pos 3 4 0) \<and>
   blockDistance (of_pos (Pos 0 0 0)) (of_pos (Pos 3 4 0)) =
     fl (distanceTo (of_pos (Pos 0 0 0)) (of_pos (Pos 3 4 0)))"
  using sortBlocksByDistance_stable_ascending
    [of "Vec3 0 0 0" "[Vec3 0 0 1, Vec3 0 0 0]" "Pos 0 0 0" "Pos 3 4 0"]
  by (simp add: magnitude_at_most_def small_coordinates_def)

section \<open>Properties of the controller\<close>

lemma sort_two_cells:
  "sortBlocksByDistance (Vec3 0 0 0) [Vec3 0 0 0, Vec3 0 0 1] = [Vec3 0 0 0, Vec3 0 0 1]"
  by (simp add: sortBlocksByDistance_def blockDistance_def Let_def)

lemma area_two_cells:
  "calculateMiningArea (Vec3 0 0 0) (Vec3 0 0 1) = Some [Vec3 0 0 0, Vec3 0 0 1]"
  by (simp add: calculateMiningArea_def count_loop.simps)

lemma tool_for_stone: "getToolForBlock (Block ''stone'' t bb) = Some ''stone_pickaxe''"
  by (simp add: getToolForBlock_def)

lemmas controller_defs =
  run_def new_controller_def new_MiningModule_def mineRectangularArea_def
  filterMineableBlocks_def stone_bot_def say_def loop_from_def mineBlock_def equipBestTool_def
  Let_def pause_def resume_def stop_def continue_task_def after_mineBlock_def

lemma run_two_cells:
  "run new_controller two_cells_events =
     \<lparr>module =
        \<lparr>isMining = True, miningQueue = [Vec3 0 0 0, Vec3 0 0 1], blocksPerSecond = 1,
         ignoredBlocks = [''bedrock'', ''obsidian''],
         console = [ConsoleLog (Starting (Vec3 0 0 0) (Vec3 0 0 1)), ConsoleLog (Calculated 2),
                    ConsoleLog (Found 2), ConsoleLog (Mined ''stone'' (Vec3 0 0 0))]\<rparr>,
      invocations = [AwaitMineBlock 0], actions = [Dig (Vec3 0 0 0)],
      mineBlock_calls = [Vec3 0 0 0]\<rparr>"
  by (simp add: two_cells_events_def controller_defs area_two_cells sort_two_cells tool_for_stone)

lemma run_pause_resume:
  "run new_controller pause_resume_events =
     \<lparr>module =
        \<lparr>isMining = True, miningQueue = [Vec3 0 0 0, Vec3 0 0 1], blocksPerSecond = 1,
         ignoredBlocks = [''bedrock'', ''obsidian''],
         console = [ConsoleLog (Starting (Vec3 0 0 0) (Vec3 0 0 1)), ConsoleLog (Calculated 2),
                    ConsoleLog (Found 2), ConsoleLog (Mined ''stone'' (Vec3 0 0 0)),
                    ConsoleLog Paused, ConsoleLog Cancelled, ConsoleLog (Completed 2),
                    ConsoleLog Resumed]\<rparr>,
      invocations = [], actions = [Dig (Vec3 0 0 0), Delay 1000],
      mineBlock_calls = [Vec3 0 0 0]\<rparr>"
  by (simp add: pause_resume_events_def controller_defs area_two_cells sort_two_cells tool_for_stone)

lemma run_uninterrupted:
  "run new_controller uninterrupted_events =
     \<lparr>module =
        \<lparr>isMining = False, miningQueue = [Vec3 0 0 0, Vec3 0 0 1], blocksPerSecond = 1,
         ignoredBlocks = [''bedrock'', ''obsidian''],
         console = [ConsoleLog (Starting (Vec3 0 0 0) (Vec3 0 0 1)), ConsoleLog (Calculated 2),
                    ConsoleLog (Found 2), ConsoleLog (Mined ''stone'' (Vec3 0 0 0)),
                    ConsoleLog (Mined ''stone'' (Vec3 0 0 1)), ConsoleLog (Completed 2)]\<rparr>,
      invocations = [], actions = [Dig (Vec3 0 0 0), Delay 1000, Dig (Vec3 0 0 1), Delay 1000],
      mineBlock_calls = [Vec3 0 0 0, Vec3 0 0 1]\<rparr>"
  by (simp add: uninterrupted_events_def controller_defs area_two_cells sort_two_cells tool_for_stone)

text \<open>
  With no invocation suspended, nothing but a new call of \<open>mineRectangularArea\<close> makes
  the module process a cell: \<open>resume\<close> has no loop to hand the queue to.
\<close>

lemma step_without_invocation:
  assumes "invocations s = []" and "\<not> starts_excavation ev"
  shows "invocations (step s ev) = [] \<and> mineBlock_calls (step s ev) = mineBlock_calls s \<and>
         actions (step s ev) = actions s"
  using assms by (cases ev) (simp_all add: continue_task_def)

lemma run_without_invocation:
  assumes "invocations s = []" and "list_all (\<lambda>ev. \<not> starts_excavation ev) events"
  shows "invocations (run s events) = [] \<and> mineBlock_calls (run s events) = mineBlock_calls s \<and>
         actions (run s events) = actions s"
  using assms unfolding run_def
proof (induction events arbitrary: s)
  case Nil
  then show ?case by simp
next
  case (Cons ev events)
  then show ?case
    using step_without_invocation [of s ev] by simp
qed

text \<open>
  C1. \<open>pause()\<close> followed by \<open>resume()\<close> should let the loop go on from where it stood and
  process every remaining cell once. Here it does not: the excavation of two cells is
  paused during the first cell, the loop sees \<open>isMining\<close> false at its next test and
  leaves for good, and \<open>resume()\<close> only sets \<open>isMining\<close> again. No invocation is left to
  process the second cell, which stays in the queue, while the module reports that it is
  mining and refuses a new excavation. Without the pause the same excavation processes
  both cells.
\<close>

theorem pause_resume_skips_remaining_cells:
  "miningQueue (module (run new_controller pause_resume_events)) = [Vec3 0 0 0, Vec3 0 0 1] \<and>
   isMining (module (run new_controller pause_resume_events)) \<and>
   invocations (run new_controller pause_resume_events) = [] \<and>
   mineBlock_calls (run new_controller pause_resume_events) = [Vec3 0 0 0] \<and>
   actions (run new_controller pause_resume_events) = [Dig (Vec3 0 0 0), Delay 1000] \<and>
   fst (mineRectangularArea stone_bot (Vec3 0 0 0) (Vec3 0 0 1)
         (run new_controller pause_resume_events)) = Returned \<and>
   mineBlock_calls (snd (mineRectangularArea stone_bot (Vec3 0 0 0) (Vec3 0 0 1)
         (run new_controller pause_resume_events))) = [Vec3 0 0 0] \<and>
   mineBlock_calls (run new_controller uninterrupted_events) = [Vec3 0 0 0, Vec3 0 0 1]"
  by (simp add: run_pause_resume run_uninterrupted mineRectangularArea_def say_def)

lemma run_restart:
  "invocations (run new_controller restart_events) = [AwaitMineBlock 0, AwaitMineBlock 0]"
  by (simp add: restart_events_def controller_defs area_two_cells sort_two_cells tool_for_stone)

lemma air_excavation:
  "fst (mineRectangularArea air_bot (Vec3 0 0 0) (Vec3 0 0 1) new_controller) = Returned"
  apply (simp add: mineRectangularArea_def new_controller_def new_MiningModule_def say_def Let_def area_two_cells)
  apply (simp add: filterMineableBlocks_def air_bot_def sortBlocksByDistance_def loop_from_def say_def Let_def)
  done

text \<open>
  C7, as stated, fails: no busy error reaches the caller. The call made while the module is
  mining returns as the call of an excavation that ran to its end does, and the caller
  cannot tell the two apart. Nor is there at most one active excavation: a call made after
  \<open>pause()\<close> is accepted while the loop of the paused excavation is still suspended, which
  leaves two invocations.
\<close>

theorem busy_call_returns_normally:
  "isMining (module (run new_controller two_cells_events)) \<and>
   fst (mineRectangularArea stone_bot (Vec3 5 5 5) (Vec3 6 6 6)
         (run new_controller two_cells_events)) = Returned \<and>
   fst (mineRectangularArea stone_bot (Vec3 5 5 5) (Vec3 6 6 6)
         (run new_controller two_cells_events)) \<noteq> Threw \<and>
   fst (mineRectangularArea air_bot (Vec3 0 0 0) (Vec3 0 0 1) new_controller) = Returned \<and>
   invocations (run new_controller restart_events) = [AwaitMineBlock 0, AwaitMineBlock 0]"
proof -
  have "fst (mineRectangularArea stone_bot (Vec3 5 5 5) (Vec3 6 6 6)
         (run new_controller two_cells_events)) = Returned"
    by (simp add: run_two_cells mineRectangularArea_def say_def)
  then show ?thesis
    by (simp add: run_two_cells run_restart air_excavation)
qed

text \<open>
  C7, amended. A call of \<open>mineRectangularArea\<close> while \<open>isMining\<close> is true is refused without
  an error: it writes "Mining is already in progress" to the console and returns. It
  changes nothing else: the queue, the suspended loop and its counter, \<open>isMining\<close> and
  every other field stay as they were, nothing is decomposed and no cell is processed.
\<close>

theorem mineRectangularArea_busy:
  "isMining (module s) \<Longrightarrow>
   mineRectangularArea b startPos endPos s =
     (Returned,
      s\<lparr>module := (module s)\<lparr>console := console (module s) @ [ConsoleLog AlreadyInProgress]\<rparr>\<rparr>)"
  by (simp add: mineRectangularArea_def say_def Let_def)

theorem mineRectangularArea_busy_witness:
  "isMining (module (run new_controller two_cells_events)) \<and>
   mineRectangularArea stone_bot (Vec3 5 5 5) (Vec3 6 6 6) (run new_controller two_cells_events) =
     (Returned,
      \<lparr>module =
        \<lparr>isMining = True, miningQueue = [Vec3 0 0 0, Vec3 0 0 1], blocksPerSecond = 1,
         ignoredBlocks = [''bedrock'', ''obsidian''],
         console = [ConsoleLog (Starting (Vec3 0 0 0) (Vec3 0 0 1)), ConsoleLog (Calculated 2),
                    ConsoleLog (Found 2), ConsoleLog (Mined ''stone'' (Vec3 0 0 0)),
                    ConsoleLog AlreadyInProgress]\<rparr>,
      invocations = [AwaitMineBlock 0], actions = [Dig (Vec3 0 0 0)],
      mineBlock_calls = [Vec3 0 0 0]\<rparr>)"
proof -
  have h: "isMining (module (run new_controller two_cells_events))"
    by (simp add: run_two_cells)
  show ?thesis
    using h mineRectangularArea_busy [OF h, of stone_bot "Vec3 5 5 5" "Vec3 6 6 6"]
    by (simp add: run_two_cells)
qed

lemma run_paused:
  "module (run new_controller paused_events) =
        \<lparr>isMining = False, miningQueue = [Vec3 0 0 0, Vec3 0 0 1], blocksPerSecond = 1,
         ignoredBlocks = [''bedrock'', ''obsidian''],
         console = [ConsoleLog (Starting (Vec3 0 0 0) (Vec3 0 0 1)), ConsoleLog (Calculated 2),
                    ConsoleLog (Found 2), ConsoleLog (Mined ''stone'' (Vec3 0 0 0)),
                    ConsoleLog Paused]\<rparr>"
  by (simp add: paused_events_def controller_defs area_two_cells sort_two_cells tool_for_stone)

text \<open>
  C2, as stated, fails: \<open>stop()\<close> called on a paused excavation leaves the queue as it is.
\<close>

theorem stop_while_paused_keeps_queue:
  "\<not> isMining (module (run new_controller paused_events)) \<and>
   miningQueue (stop (module (run new_controller paused_events))) = [Vec3 0 0 0, Vec3 0 0 1] \<and>
   miningQueue (stop (module (run new_controller paused_events))) \<noteq> []"
  by (simp add: run_paused stop_def)

text \<open>
  C2, amended. After \<open>stop()\<close> the module is never mining, and a second \<open>stop()\<close> changes
  nothing. Called while the module is mining, \<open>stop()\<close> empties the queue; called while it
  is not mining (paused or idle), \<open>stop()\<close> changes nothing at all, the queue included.
\<close>

theorem stop_not_mining_idempotent:
  "\<not> isMining (stop m) \<and>
   stop (stop m) = stop m \<and>
   (isMining m \<longrightarrow> miningQueue (stop m) = []) \<and>
   (\<not> isMining m \<longrightarrow> stop m = m)"
  by (simp add: stop_def say_def)

theorem stop_not_mining_idempotent_witness:
  "isMining (module (run new_controller two_cells_events)) \<and>
   miningQueue (stop (module (run new_controller two_cells_events))) = [] \<and>
   \<not> isMining (stop (module (run new_controller two_cells_events))) \<and>
   \<not> isMining (module (run new_controller paused_events)) \<and>
   stop (module (run new_controller paused_events)) = module (run new_controller paused_events)"
proof -
  have h1: "isMining (module (run new_controller two_cells_events))"
    by (simp add: run_two_cells)
  have h2: "\<not> isMining (module (run new_controller paused_events))"
    by (simp add: run_paused)
  show ?thesis
    using h1 h2 stop_not_mining_idempotent [of "module (run new_controller two_cells_events)"]
      stop_not_mining_idempotent [of "module (run new_controller paused_events)"]
    by blast
qed

text \<open>
  C5, as stated, fails: the rate 0.1 is accepted and becomes the configured throughput.
\<close>

theorem setMiningSpeed_accepts_lower_bound:
  "blocksPerSecond (setMiningSpeed 0.1 new_MiningModule) = 0.1 \<and>
   blocksPerSecond new_MiningModule = 1 \<and>
   console (setMiningSpeed 0.1 new_MiningModule) = [ConsoleLog (SpeedSet 0.1)]"
  by (simp add: setMiningSpeed_def new_MiningModule_def say_def)

text \<open>
  C5, amended. A rate below 0.1 or above 10 is rejected: \<open>setMiningSpeed\<close> writes the range
  error and changes no field. A rate from 0.1 to 10, both ends included, becomes the
  configured throughput.
\<close>

theorem setMiningSpeed_range:
  "(speed < 0.1 \<or> speed > 10 \<longrightarrow>
      setMiningSpeed speed m = m\<lparr>console := console m @ [ConsoleError SpeedOutOfRange]\<rparr>) \<and>
   (0.1 \<le> speed \<and> speed \<le> 10 \<longrightarrow>
      setMiningSpeed speed m =
        m\<lparr>blocksPerSecond := speed, console := console m @ [ConsoleLog (SpeedSet speed)]\<rparr>)"
  by (auto simp add: setMiningSpeed_def say_def)

theorem setMiningSpeed_range_witness:
  "setMiningSpeed 0.05 new_MiningModule =
     new_MiningModule\<lparr>console := [ConsoleError SpeedOutOfRange]\<rparr> \<and>
   setMiningSpeed 11 new_MiningModule =
     new_MiningModule\<lparr>console := [ConsoleError SpeedOutOfRange]\<rparr> \<and>
   setMiningSpeed 0.1 new_MiningModule =
     new_MiningModule\<lparr>blocksPerSecond := 0.1, console := [ConsoleLog (SpeedSet 0.1)]\<rparr> \<and>
   setMiningSpeed 10 new_MiningModule =
     new_MiningModule\<lparr>blocksPerSecond := 10, console := [ConsoleLog (SpeedSet 10)]\<rparr>"
  using setMiningSpeed_range [of "0.05" new_MiningModule]
    setMiningSpeed_range [of 11 new_MiningModule]
    setMiningSpeed_range [of "0.1" new_MiningModule]
    setMiningSpeed_range [of 10 new_MiningModule]
  by (simp add: new_MiningModule_def)

section \<open>Properties of the hazard scan\<close>


















text \<open>
  C9. For a null position, and for a position the world has no block for,
  \<open>isLavaPresent\<close> and \<open>isWaterPresent\<close> both answer false.
\<close>

theorem unresolvable_is_not_liquid:
  "isLavaPresent c w None = False \<and>
   isWaterPresent c w None = False \<and>
   (getBlock w p = None \<longrightarrow>
      isLavaPresent c w (Some p) = False \<and> isWaterPresent c w (Some p) = False)"
  by (simp add: isLavaPresent_def isWaterPresent_def)

theorem unresolvable_is_not_liquid_witness:
  "getBlock unloaded_world (Pos 3 4 5) = None \<and>
   isLavaPresent new_SafetyChecker unloaded_world (Some (Pos 3 4 5)) = False \<and>
   isWaterPresent new_SafetyChecker unloaded_world (Some (Pos 3 4 5)) = False \<and>
   isLavaPresent new_SafetyChecker unloaded_world None = False \<and>
   isWaterPresent new_SafetyChecker unloaded_world None = False"
  using unresolvable_is_not_liquid [of new_SafetyChecker unloaded_world "Pos 3 4 5"]
  by (simp add: unloaded_world_def)











section \<open>Properties of the navigation loop\<close>

lemma flags_setControlState [simp]:
  "pathfindingActive (setControlState c v s) = pathfindingActive s"
  "goals (setControlState c v s) = goals s"
  by (simp_all add: setControlState_def)

lemma flags_sleep [simp]:
  "pathfindingActive (sleep e ms s) = pathfindingActive s"
  "goals (sleep e ms s) = goals s"
  "controlState (sleep e ms s) = controlState s"
  by (simp_all add: sleep_def)

lemma flags_moveInDirection [simp]:
  "pathfindingActive (moveInDirection e dir s) = pathfindingActive s"
  "goals (moveInDirection e dir s) = goals s"
  by (simp_all add: moveInDirection_def Let_def)

lemma flags_avoidDanger [simp]:
  "pathfindingActive (avoidDanger e dangerType s) = pathfindingActive s"
  "goals (avoidDanger e dangerType s) = goals s"
  by (simp_all add: avoidDanger_def Let_def split: option.split)

lemma flags_moveTowards [simp]:
  "pathfindingActive (moveTowards e target s) = pathfindingActive s"
  "goals (moveTowards e target s) = goals s"
  by (simp_all add: moveTowards_def Let_def)

lemma forward_moveTowards [simp]: "controlState (moveTowards e target s) Forward"
  by (simp add: moveTowards_def Let_def setControlState_def)

lemma flags_navigate_round [simp]:
  "pathfindingActive (navigate_round e target opts s) = pathfindingActive s"
  "goals (navigate_round e target opts s) = goals s"
  by (simp_all add: navigate_round_def Let_def split: option.split)

lemma forward_navigate_round [simp]: "controlState (navigate_round e target opts s) Forward"
  by (simp add: navigate_round_def Let_def)










end
